theory Spec2Isabelle
  imports Complex_Main
begin

section \<open>Vehicle tracker: playback controller, kinematics and marker animation\<close>

text \<open>
  The development embeds \<^verbatim>\<open>src/App.jsx\<close>. JavaScript numbers that hold indices and
  epoch milliseconds are integers (\<open>int\<close>). In the distance and speed computation numbers
  are doubles, with IEEE rounding and \<open>NaN\<close> (type \<open>number\<close> below). The positions and clock
  readings of the marker animation and the progress percentage are doubles in the source
  and real numbers here. A waypoint's coordinates are the values of its two doubles, and
  its \<open>timestamp\<close> field is the value \<^verbatim>\<open>new Date(point.timestamp).getTime()\<close> of its
  ISO-8601 string, in milliseconds.
\<close>

subsection \<open>Data\<close>

record waypoint =
  lat :: real
  lng :: real
  timestamp :: int

text \<open>
  The state of the \<^verbatim>\<open>App\<close> component: its \<^verbatim>\<open>useState\<close> cells, and
  whether the interval stored in \<^verbatim>\<open>intervalRef\<close> is currently registered
  (set by \<^verbatim>\<open>setInterval\<close> and not yet cleared).
\<close>

record app =
  routeData :: "waypoint list"
  currentIndex :: int
  isPlaying :: bool
  isLoading :: bool
  intervalActive :: bool

definition initialApp :: app where
  "initialApp = \<lparr>routeData = [], currentIndex = 0, isPlaying = False,
                  isLoading = True, intervalActive = False\<rparr>"

subsection \<open>Playback controller\<close>

text \<open>
  The simulation effect (lines 166-186). Its cleanup clears the registered interval; its
  body registers a new one only while playing, with data, before the last index.
\<close>

definition simulationEffect :: "app \<Rightarrow> app" where
  "simulationEffect s =
     (let cleared = s\<lparr>intervalActive := False\<rparr>
      in if isPlaying s \<and> length (routeData s) > 0
            \<and> currentIndex s < int (length (routeData s)) - 1
         then cleared\<lparr>intervalActive := True\<rparr>
         else cleared)"

text \<open>
  A render after a state update from \<open>old\<close> to \<open>new\<close> that leaves \<^verbatim>\<open>routeData\<close>
  alone: the effect's dependencies are \<^verbatim>\<open>[isPlaying, currentIndex, routeData]\<close>, so the
  effect runs again only when \<^verbatim>\<open>isPlaying\<close> or \<^verbatim>\<open>currentIndex\<close> changed.
\<close>

definition rerender :: "app \<Rightarrow> app \<Rightarrow> app" where
  "rerender old new =
     (if isPlaying new = isPlaying old \<and> currentIndex new = currentIndex old
      then new else simulationEffect new)"

text \<open>The body of the interval callback (lines 169-176).\<close>

definition intervalCallback :: "app \<Rightarrow> app" where
  "intervalCallback s =
     (if currentIndex s \<ge> int (length (routeData s)) - 1
      then s\<lparr>isPlaying := False\<rparr>
      else s\<lparr>currentIndex := currentIndex s + 1\<rparr>)"

text \<open>One period of the timer: the callback fires only if the interval is registered.\<close>

definition tick :: "app \<Rightarrow> app" where
  "tick s = (if intervalActive s then rerender s (intervalCallback s) else s)"

text \<open>The click handlers (lines 190-203).\<close>

definition togglePlay :: "app \<Rightarrow> app" where
  "togglePlay s =
     (if currentIndex s \<ge> int (length (routeData s)) - 1
      then s\<lparr>currentIndex := 0, isPlaying := True\<rparr>
      else s\<lparr>isPlaying := \<not> isPlaying s\<rparr>)"

definition resetSimulation :: "app \<Rightarrow> app" where
  "resetSimulation s = s\<lparr>isPlaying := False, currentIndex := 0\<rparr>"

text \<open>
  The two buttons (lines 364-381). They are rendered only once \<^verbatim>\<open>isLoading\<close> is false
  (the loading screen is returned before them) and carry
  \<^verbatim>\<open>disabled={routeData.length === 0}\<close>, so a click reaches the handler only on a
  loaded, non-empty route. The play button is the play, pause and replay command.
\<close>

definition clickPlay :: "app \<Rightarrow> app" where
  "clickPlay s =
     (if isLoading s \<or> length (routeData s) = 0 then s else rerender s (togglePlay s))"

definition clickReset :: "app \<Rightarrow> app" where
  "clickReset s =
     (if isLoading s \<or> length (routeData s) = 0 then s else rerender s (resetSimulation s))"

text \<open>
  The outcome of \<^verbatim>\<open>loadRouteData\<close> (lines 142-159): on success the mapped waypoints are
  stored and the simulation effect runs again (a new array is a changed dependency); on
  failure only \<^verbatim>\<open>isLoading\<close> is cleared.
\<close>

definition loadSucceeded :: "waypoint list \<Rightarrow> app \<Rightarrow> app" where
  "loadSucceeded loadedData s = simulationEffect (s\<lparr>routeData := loadedData, isLoading := False\<rparr>)"

definition loadFailed :: "app \<Rightarrow> app" where
  "loadFailed s = s\<lparr>isLoading := False\<rparr>"

text \<open>
  The label of the play button (line 373), the component's own display of its status.
\<close>

datatype label = Pause | Replay | Play

definition buttonLabel :: "app \<Rightarrow> label" where
  "buttonLabel s =
     (if isPlaying s then Pause
      else if currentIndex s \<ge> int (length (routeData s)) - 1 then Replay
      else Play)"

text \<open>
  The states the component can be in: it mounts in \<open>initialApp\<close>; the load effect has an
  empty dependency list, so it resolves once, while \<^verbatim>\<open>isLoading\<close> is still true; after
  that only clicks and timer periods happen.
\<close>

inductive reachable :: "app \<Rightarrow> bool" where
  mount: "reachable initialApp"
| load: "reachable s \<Longrightarrow> isLoading s \<Longrightarrow> reachable (loadSucceeded loadedData s)"
| loadError: "reachable s \<Longrightarrow> isLoading s \<Longrightarrow> reachable (loadFailed s)"
| play: "reachable s \<Longrightarrow> reachable (clickPlay s)"
| reset: "reachable s \<Longrightarrow> reachable (clickReset s)"
| timer: "reachable s \<Longrightarrow> reachable (tick s)"

text \<open>
  What every reachable state satisfies: the interval is registered exactly when the
  effect's condition holds, nothing is loaded while \<^verbatim>\<open>isLoading\<close> is true, an empty
  route sits at index 0 and is not playing, and the index is a position of the route.
\<close>

definition controllerInvariant :: "app \<Rightarrow> bool" where
  "controllerInvariant s =
     ((intervalActive s \<longleftrightarrow>
         isPlaying s \<and> routeData s \<noteq> [] \<and> currentIndex s < int (length (routeData s)) - 1)
      \<and> (isLoading s \<longrightarrow> routeData s = [])
      \<and> (routeData s = [] \<longrightarrow> currentIndex s = 0 \<and> \<not> isPlaying s)
      \<and> 0 \<le> currentIndex s
      \<and> (routeData s \<noteq> [] \<longrightarrow> currentIndex s \<le> int (length (routeData s)) - 1))"

text \<open>A route of three waypoints, recorded at 0 s, 10 s and 40 s.\<close>

definition sampleRoute :: "waypoint list" where
  "sampleRoute =
     [\<lparr>lat = 17.375, lng = 78.5, timestamp = 0\<rparr>,
      \<lparr>lat = 17.5, lng = 78.625, timestamp = 10000\<rparr>,
      \<lparr>lat = 17.625, lng = 78.75, timestamp = 40000\<rparr>]"

text \<open>
  \<open>sampleRoute\<close> loaded into the freshly mounted component, the play button clicked,
  and two periods of the timer.
\<close>

definition endOfRoute :: app where
  "endOfRoute = tick (tick (clickPlay (loadSucceeded sampleRoute initialApp)))"

subsection \<open>Kinematics calculator\<close>

text \<open>
  A JavaScript number in the distance and speed computation: \<open>NaN\<close>, or a finite double,
  given by its exact value. An arithmetic result that overflows is an infinity in the
  source; every infinity that can arise in \<^verbatim>\<open>calculateDistanceKm\<close> is next passed to
  \<^verbatim>\<open>Math.sin\<close> or \<^verbatim>\<open>Math.cos\<close>, which return \<open>NaN\<close> for it, so the model gives
  \<open>NaN\<close> at once and has no infinities. Signed zeros are not distinguished.
\<close>

datatype number = NaN | Num real

text \<open>The integer nearest to \<open>q\<close>, the even one of the two on a tie.\<close>

definition roundEven :: "real \<Rightarrow> int" where
  "roundEven q =
     (let f = \<lfloor>q\<rfloor>; d = q - of_int f
      in if d < 1 / 2 then f else if 1 / 2 < d then f + 1 else if even f then f else f + 1)"

text \<open>
  IEEE 754 binary64 rounding of an exact result, to nearest, ties to even: 53 significant
  bits, exponents from \<open>-1022\<close> (below that the spacing stays \<open>2\<^sup>-\<^sup>1\<^sup>0\<^sup>7\<^sup>4\<close>), overflow from
  \<open>2\<^sup>1\<^sup>0\<^sup>2\<^sup>4\<close> on.
\<close>

definition roundDouble :: "real \<Rightarrow> number" where
  "roundDouble x =
     (if x = 0 then Num 0
      else let e = max \<lfloor>log 2 \<bar>x\<bar>\<rfloor> (- 1022);
               ulp = 2 powr (of_int e - 52);
               r = of_int (roundEven (x / ulp)) * ulp
           in if \<bar>r\<bar> < 2 powr 1024 then Num r else NaN)"

text \<open>
  The operators \<^verbatim>\<open>+\<close>, \<^verbatim>\<open>-\<close>, \<^verbatim>\<open>*\<close> and \<^verbatim>\<open>/\<close>: the exact result, rounded; \<open>NaN\<close> when
  an operand is \<open>NaN\<close>. A zero divisor gives an infinity or \<open>NaN\<close> in the source and \<open>NaN\<close>
  here; the divisors of the program are 180, 2 and a time that has been tested to be
  positive.
\<close>

definition jsAdd :: "number \<Rightarrow> number \<Rightarrow> number" where
  "jsAdd a b = (case (a, b) of (Num x, Num y) \<Rightarrow> roundDouble (x + y) | _ \<Rightarrow> NaN)"

definition jsSub :: "number \<Rightarrow> number \<Rightarrow> number" where
  "jsSub a b = (case (a, b) of (Num x, Num y) \<Rightarrow> roundDouble (x - y) | _ \<Rightarrow> NaN)"

definition jsMul :: "number \<Rightarrow> number \<Rightarrow> number" where
  "jsMul a b = (case (a, b) of (Num x, Num y) \<Rightarrow> roundDouble (x * y) | _ \<Rightarrow> NaN)"

definition jsDiv :: "number \<Rightarrow> number \<Rightarrow> number" where
  "jsDiv a b =
     (case (a, b) of
        (Num x, Num y) \<Rightarrow> if y = 0 then NaN else roundDouble (x / y)
      | _ \<Rightarrow> NaN)"

text \<open>The comparison \<^verbatim>\<open>a <= b\<close>, false when an operand is \<open>NaN\<close>.\<close>

definition jsLessEq :: "number \<Rightarrow> number \<Rightarrow> bool" where
  "jsLessEq a b = (case (a, b) of (Num x, Num y) \<Rightarrow> x \<le> y | _ \<Rightarrow> False)"

text \<open>The comparison \<^verbatim>\<open>a == b\<close> of two numbers, false when an operand is \<open>NaN\<close>.\<close>

definition jsEquals :: "number \<Rightarrow> number \<Rightarrow> bool" where
  "jsEquals a b = (case (a, b) of (Num x, Num y) \<Rightarrow> x = y | _ \<Rightarrow> False)"

text \<open>
  ECMAScript leaves the results of \<^verbatim>\<open>Math.sin\<close>, \<^verbatim>\<open>Math.cos\<close>, \<^verbatim>\<open>Math.sqrt\<close> and
  \<^verbatim>\<open>Math.atan2\<close> on finite arguments to the implementation, so the model takes them from
  the engine that runs the program: each function gives the double the engine returns.
  What the language fixes is modelled: \<open>NaN\<close> for a \<open>NaN\<close> argument, and \<open>NaN\<close> for the
  square root of a negative number.
\<close>

record engine =
  sinD :: "real \<Rightarrow> real"
  cosD :: "real \<Rightarrow> real"
  sqrtD :: "real \<Rightarrow> real"
  atan2D :: "real \<Rightarrow> real \<Rightarrow> real"

definition mathSin :: "engine \<Rightarrow> number \<Rightarrow> number" where
  "mathSin m a = (case a of Num x \<Rightarrow> Num (sinD m x) | NaN \<Rightarrow> NaN)"

definition mathCos :: "engine \<Rightarrow> number \<Rightarrow> number" where
  "mathCos m a = (case a of Num x \<Rightarrow> Num (cosD m x) | NaN \<Rightarrow> NaN)"

definition mathSqrt :: "engine \<Rightarrow> number \<Rightarrow> number" where
  "mathSqrt m a = (case a of Num x \<Rightarrow> if x < 0 then NaN else Num (sqrtD m x) | NaN \<Rightarrow> NaN)"

definition mathAtan2 :: "engine \<Rightarrow> number \<Rightarrow> number \<Rightarrow> number" where
  "mathAtan2 m a b = (case (a, b) of (Num y, Num x) \<Rightarrow> Num (atan2D m y x) | _ \<Rightarrow> NaN)"

text \<open>\<^verbatim>\<open>Math.PI\<close>, the double \<open>3.141592653589793\<close>.\<close>

definition mathPI :: number where
  "mathPI = Num (884279719003555 / 2 ^ 48)"

text \<open>The argument \<open>a\<close> of the two square roots in \<^verbatim>\<open>calculateDistanceKm\<close> (lines 10-16).\<close>

definition haversineA :: "engine \<Rightarrow> number \<Rightarrow> number \<Rightarrow> number \<Rightarrow> number \<Rightarrow> number" where
  "haversineA m lat1 lon1 lat2 lon2 =
     (let dLat = jsDiv (jsMul (jsSub lat2 lat1) mathPI) (Num 180);
          dLon = jsDiv (jsMul (jsSub lon2 lon1) mathPI) (Num 180)
      in jsAdd
           (jsMul (mathSin m (jsDiv dLat (Num 2))) (mathSin m (jsDiv dLat (Num 2))))
           (jsMul
              (jsMul
                 (jsMul (mathCos m (jsDiv (jsMul lat1 mathPI) (Num 180)))
                        (mathCos m (jsDiv (jsMul lat2 mathPI) (Num 180))))
                 (mathSin m (jsDiv dLon (Num 2))))
              (mathSin m (jsDiv dLon (Num 2)))))"

text \<open>\<^verbatim>\<open>calculateDistanceKm\<close> (lines 8-20).\<close>

definition calculateDistanceKm ::
  "engine \<Rightarrow> number \<Rightarrow> number \<Rightarrow> number \<Rightarrow> number \<Rightarrow> number" where
  "calculateDistanceKm m lat1 lon1 lat2 lon2 =
     (let R = Num 6371;
          a = haversineA m lat1 lon1 lat2 lon2;
          c = jsMul (Num 2) (mathAtan2 m (mathSqrt m a) (mathSqrt m (jsSub (Num 1) a)))
      in jsMul R c)"

text \<open>
  Reading \<^verbatim>\<open>routeData[i]\<close>: JavaScript yields \<^verbatim>\<open>undefined\<close> (here \<open>None\<close>) outside
  \<open>0 \<dots> length - 1\<close>, negative indices included.
\<close>

definition element :: "'a list \<Rightarrow> int \<Rightarrow> 'a option" where
  "element xs i = (if 0 \<le> i \<and> i < int (length xs) then Some (xs ! nat i) else None)"

text \<open>
  Decimal digits of a natural number, as \<^verbatim>\<open>String(n)\<close> prints them; \<open>digitChar\<close> is
  only applied to a digit below ten.
\<close>

definition digitChar :: "nat \<Rightarrow> char" where
  "digitChar d = ''0123456789'' ! d"

fun showNat :: "nat \<Rightarrow> string" where
  "showNat n = (if n < 10 then [digitChar n] else showNat (n div 10) @ [digitChar (n mod 10)])"

declare showNat.simps [simp del]

text \<open>\<^verbatim>\<open>String(i)\<close> for an integer-valued number.\<close>

definition showInt :: "int \<Rightarrow> string" where
  "showInt i = (if i < 0 then CHR ''-'' # showNat (nat (- i)) else showNat (nat i))"

text \<open>\<^verbatim>\<open>s.padStart(2, '0')\<close>.\<close>

definition padStart2 :: "string \<Rightarrow> string" where
  "padStart2 s = (if length s \<ge> 2 then s else replicate (2 - length s) CHR ''0'' @ s)"

text \<open>
  \<^verbatim>\<open>x.toFixed(2)\<close> as ECMAScript defines it: \<^verbatim>\<open>NaN\<close> for \<open>NaN\<close>; for a double \<open>x\<close> of
  magnitude below \<open>10\<^sup>2\<^sup>1\<close> the integer \<open>n\<close> nearest to \<open>100 x\<close> (the larger one on a tie),
  its digits padded with zeros to at least three, and a point before the last two. Above
  that magnitude the source switches to exponent notation, which is not modelled: a
  distance is at most a few times the earth's radius and a positive time is at least a
  millisecond, so no speed comes near it.
\<close>

definition toFixed2 :: "number \<Rightarrow> string" where
  "toFixed2 a =
     (case a of
        NaN \<Rightarrow> ''NaN''
      | Num x \<Rightarrow>
          (let s = (if x < 0 then ''-'' else []);
               n = nat \<lfloor>\<bar>x\<bar> * 100 + 1 / 2\<rfloor>;
               m = showNat n;
               m = (if length m \<le> 2 then replicate (3 - length m) CHR ''0'' @ m else m);
               k = length m
           in s @ take (k - 2) m @ ''.'' @ drop (k - 2) m))"

text \<open>
  The decimal numeral of \<open>n / 100\<close>, written with its integer part, a point and exactly
  two decimals.
\<close>

definition twoDecimals :: "nat \<Rightarrow> string" where
  "twoDecimals n =
     showNat (n div 100) @ ''.'' @ [digitChar (n div 10 mod 10), digitChar (n mod 10)]"

text \<open>
  \<^verbatim>\<open>calculateSpeedKmH\<close> (lines 26-46). The coordinates of a waypoint are doubles, and
  the difference of two timestamps is an integer a double holds exactly.
\<close>

definition calculateSpeedKmH :: "engine \<Rightarrow> int \<Rightarrow> waypoint list \<Rightarrow> string" where
  "calculateSpeedKmH m index route =
     (if index = 0 \<or> length route \<le> 1 then ''0.00''
      else case (element route (index - 1), element route index) of
        (Some prevPoint, Some currPoint) \<Rightarrow>
          (let distanceKm = calculateDistanceKm m (Num (lat prevPoint)) (Num (lng prevPoint))
                              (Num (lat currPoint)) (Num (lng currPoint));
               timeDeltaMs = timestamp currPoint - timestamp prevPoint;
               timeDeltaHours = jsDiv (Num (real_of_int timeDeltaMs)) (Num (1000 * 60 * 60))
           in if jsLessEq timeDeltaHours (Num 0) then ''N/A''
              else toFixed2 (jsDiv distanceKm timeDeltaHours))
      | _ \<Rightarrow> ''0.00'')"

text \<open>
  Two waypoints on opposite sides of the globe, \<open>(8, 0)\<close> and \<open>(-8, 180)\<close>, ten seconds
  apart.
\<close>

definition antipodalRoute :: "waypoint list" where
  "antipodalRoute =
     [\<lparr>lat = 8, lng = 0, timestamp = 0\<rparr>, \<lparr>lat = - 8, lng = 180, timestamp = 10000\<rparr>]"

text \<open>
  The four results of \<^verbatim>\<open>Math.sin\<close> and \<^verbatim>\<open>Math.cos\<close> that the distance between these
  two waypoints asks for, as V8's implementation and the C library return them:
  \<^verbatim>\<open>Math.sin(-0.13962634015954636) = -0.13917310096006544\<close>,
  \<^verbatim>\<open>Math.cos(0.13962634015954636) = Math.cos(-0.13962634015954636) = 0.9902680687415704\<close>
  and \<^verbatim>\<open>Math.sin(1.5707963267948966) = 1\<close>, each double written as its exact value.
\<close>

definition returnsEightDegrees :: "engine \<Rightarrow> bool" where
  "returnsEightDegrees m =
     (sinD m (- (5030569068109113 / 2 ^ 55)) = - (5014239404989977 / 2 ^ 55)
      \<and> cosD m (5030569068109113 / 2 ^ 55) = 4459770905381437 / 2 ^ 52
      \<and> cosD m (- (5030569068109113 / 2 ^ 55)) = 4459770905381437 / 2 ^ 52
      \<and> sinD m (884279719003555 / 2 ^ 49) = 1)"

text \<open>
  An engine with these four results; elsewhere it returns the exact values, which no
  theorem below looks at.
\<close>

definition tableEngine :: engine where
  "tableEngine =
     \<lparr>sinD = (\<lambda>x. if x = - (5030569068109113 / 2 ^ 55) then - (5014239404989977 / 2 ^ 55)
                  else if x = 884279719003555 / 2 ^ 49 then 1 else sin x),
      cosD = (\<lambda>x. if \<bar>x\<bar> = 5030569068109113 / 2 ^ 55 then 4459770905381437 / 2 ^ 52
                  else cos x),
      sqrtD = sqrt,
      atan2D = (\<lambda>y x. if 0 < x then arctan (y / x) else pi / 2)\<rparr>"

text \<open>
  The remainder operator \<^verbatim>\<open>%\<close> on integer-valued numbers: the result takes the sign of
  the dividend.
\<close>

definition jsRem :: "int \<Rightarrow> int \<Rightarrow> int" where
  "jsRem a b = (if a \<ge> 0 then a mod \<bar>b\<bar> else - ((- a) mod \<bar>b\<bar>))"

text \<open>
  \<^verbatim>\<open>formatElapsedTime\<close> (lines 51-60). An argument is \<open>None\<close> when the timestamp is
  absent (\<^verbatim>\<open>null\<close>, \<^verbatim>\<open>undefined\<close> or the empty string, all falsy) and otherwise
  holds the epoch milliseconds of the date. \<^verbatim>\<open>Math.floor\<close> of a quotient of integers is
  \<open>div\<close>.
\<close>

definition formatElapsedTime :: "int option \<Rightarrow> int option \<Rightarrow> string" where
  "formatElapsedTime startTime currentTime =
     (case (startTime, currentTime) of
        (Some st, Some ct) \<Rightarrow>
          (let deltaMs = ct - st;
               seconds = deltaMs div 1000;
               minutes = seconds div 60;
               remainingSeconds = jsRem seconds 60
           in padStart2 (showInt minutes) @ '':'' @ padStart2 (showInt remainingSeconds))
      | _ \<Rightarrow> ''00:00'')"

text \<open>The progress value of the render (lines 217-219), a percentage.\<close>

definition progressPercentage :: "int \<Rightarrow> nat \<Rightarrow> real" where
  "progressPercentage index len =
     (if len > 0 then ((real_of_int index + 1) / real len) * 100 else 0)"

text \<open>Reading a label back: the text before and after the colon, and a decimal numeral.\<close>

definition minutesField :: "string \<Rightarrow> string" where
  "minutesField l = takeWhile (\<lambda>c. c \<noteq> CHR '':'') l"

definition secondsField :: "string \<Rightarrow> string" where
  "secondsField l = drop 1 (dropWhile (\<lambda>c. c \<noteq> CHR '':'') l)"

definition isDigit :: "char \<Rightarrow> bool" where
  "isDigit c = (c \<in> set ''0123456789'')"

definition digitValue :: "char \<Rightarrow> nat" where
  "digitValue c = of_char c - 48"

definition readNat :: "string \<Rightarrow> nat" where
  "readNat s = foldl (\<lambda>acc c. 10 * acc + digitValue c) 0 s"

subsection \<open>Marker animation\<close>

text \<open>
  \<^verbatim>\<open>AnimatedMarker\<close> (lines 67-112). A position is the array \<^verbatim>\<open>[lat, lng]\<close>. An
  \<open>animation\<close> is one closure \<^verbatim>\<open>animate\<close> with the three constants it captures. The
  animator's state is the marker's position as set through \<^verbatim>\<open>marker.setLatLng\<close>, the
  cell \<^verbatim>\<open>prevPositionRef\<close>, the callbacks handed to \<^verbatim>\<open>requestAnimationFrame\<close> and
  not yet run, in the order they were handed over, and the targets passed to
  \<^verbatim>\<open>map.panTo\<close>. The marker is mounted before the effect first runs and \<^verbatim>\<open>position\<close>
  is always an array, so the effect's outer guard holds. What the map library itself does
  with the \<^verbatim>\<open>position\<close> prop is not part of \<^verbatim>\<open>App.jsx\<close>.
\<close>

type_synonym latLng = "real \<times> real"

record animation =
  startLatLng :: latLng
  endLatLng :: latLng
  startTime :: real












section \<open>Playback controller: proofs\<close>

lemmas controller_defs =
  simulationEffect_def rerender_def intervalCallback_def tick_def togglePlay_def
  resetSimulation_def clickPlay_def clickReset_def loadSucceeded_def loadFailed_def

lemma invariant_mount: "controllerInvariant initialApp"
  by (simp add: controllerInvariant_def initialApp_def)

lemma invariant_load:
  "controllerInvariant s \<Longrightarrow> isLoading s \<Longrightarrow> controllerInvariant (loadSucceeded loadedData s)"
  by (auto simp: controllerInvariant_def loadSucceeded_def simulationEffect_def Let_def)

lemma invariant_loadError:
  "controllerInvariant s \<Longrightarrow> isLoading s \<Longrightarrow> controllerInvariant (loadFailed s)"
  by (auto simp: controllerInvariant_def loadFailed_def)

lemma invariant_clickPlay: "controllerInvariant s \<Longrightarrow> controllerInvariant (clickPlay s)"
  by (auto simp: controllerInvariant_def clickPlay_def rerender_def togglePlay_def
      simulationEffect_def Let_def)

lemma invariant_clickReset: "controllerInvariant s \<Longrightarrow> controllerInvariant (clickReset s)"
  by (auto simp: controllerInvariant_def clickReset_def rerender_def resetSimulation_def
      simulationEffect_def Let_def)

lemma invariant_tick: "controllerInvariant s \<Longrightarrow> controllerInvariant (tick s)"
  by (auto simp: controllerInvariant_def tick_def rerender_def intervalCallback_def
      simulationEffect_def Let_def)

lemma reachable_invariant: "reachable s \<Longrightarrow> controllerInvariant s"
  by (induction rule: reachable.induct)
     (simp_all add: invariant_mount invariant_load invariant_loadError invariant_clickPlay
        invariant_clickReset invariant_tick)

lemma isLoading_initialApp: "isLoading initialApp"
  by (simp add: initialApp_def)

lemma reachable_loaded: "reachable (loadSucceeded loadedData initialApp)"
  by (rule reachable.load[OF reachable.mount isLoading_initialApp])

text \<open>
  Playing a freshly loaded route from the start: after \<open>k\<close> periods of the timer the index
  is \<open>k\<close>, and the interval stays registered exactly until the last index is reached.
  \<^verbatim>\<open>isPlaying\<close> is never cleared on the way: the callback's branch that calls
  \<^verbatim>\<open>setIsPlaying(false)\<close> needs a callback at the last index, and the effect has
  cleared the interval by then.
\<close>

lemma play_then_ticks:
  assumes "loadedData \<noteq> []" "k < length loadedData"
  shows "(tick ^^ k) (clickPlay (loadSucceeded loadedData initialApp)) =
           \<lparr>routeData = loadedData, currentIndex = int k, isPlaying = True,
            isLoading = False, intervalActive = (int k < int (length loadedData) - 1)\<rparr>"
  using assms
proof (induction k)
  case 0
  then show ?case by (auto simp: controller_defs initialApp_def Let_def)
next
  case (Suc k)
  then show ?case by (auto simp: controller_defs Let_def)
qed

text \<open>
  The handler itself has no guard for an empty route: called there it would set
  \<^verbatim>\<open>isPlaying\<close>. Only the disabled button keeps it from being called.
\<close>

lemma togglePlay_unguarded: "isPlaying (togglePlay (loadFailed initialApp))"
  by (simp add: togglePlay_def loadFailed_def initialApp_def)

lemma reachable_endOfRoute: "reachable endOfRoute"
  unfolding endOfRoute_def by (intro reachable.timer reachable.play reachable_loaded)

lemma endOfRoute_value:
  "endOfRoute = \<lparr>routeData = sampleRoute, currentIndex = 2, isPlaying = True,
                  isLoading = False, intervalActive = False\<rparr>"
  by (simp add: endOfRoute_def controller_defs initialApp_def sampleRoute_def Let_def)

lemma length_sampleRoute: "length sampleRoute = 3"
  by (simp add: sampleRoute_def)

text \<open>
  C1. From the idle state on \<open>sampleRoute\<close> (length 3), play and two timer periods bring
  the index to 2, the last position, with no waypoint skipped, and the interval is
  cleared, so a further period changes nothing. But \<^verbatim>\<open>isPlaying\<close> is still true and the
  button still reads Pause: the state the source means to reach at the end of the route
  (\<^verbatim>\<open>setIsPlaying(false)\<close>, label Replay) would need the interval callback to run once
  more, and it cannot.
\<close>

theorem playback_end_keeps_playing:
  "currentIndex endOfRoute = 2
   \<and> \<not> intervalActive endOfRoute
   \<and> tick endOfRoute = endOfRoute
   \<and> isPlaying endOfRoute
   \<and> buttonLabel endOfRoute = Pause
   \<and> buttonLabel (intervalCallback endOfRoute) = Replay"
  by (simp add: endOfRoute_value tick_def intervalCallback_def buttonLabel_def
      length_sampleRoute)

text \<open>
  C3. On an empty route a click on the play button and a click on the reset button leave
  every reachable state as it is: still not playing, still at index 0.
\<close>

theorem empty_route_clicks_ignored:
  "reachable s \<Longrightarrow> routeData s = [] \<Longrightarrow>
     clickPlay s = s \<and> clickReset s = s
     \<and> \<not> isPlaying (clickPlay s) \<and> currentIndex (clickPlay s) = 0
     \<and> \<not> isPlaying (clickReset s) \<and> currentIndex (clickReset s) = 0"
  using reachable_invariant[of s]
  by (simp add: controllerInvariant_def clickPlay_def clickReset_def)

text \<open>Witness for C3: the state after a load that returned no waypoints.\<close>

theorem empty_route_clicks_ignored_witness:
  "reachable (loadSucceeded [] initialApp) \<and> routeData (loadSucceeded [] initialApp) = []
   \<and> clickPlay (loadSucceeded [] initialApp) = loadSucceeded [] initialApp
   \<and> clickReset (loadSucceeded [] initialApp) = loadSucceeded [] initialApp
   \<and> \<not> isPlaying (clickPlay (loadSucceeded [] initialApp))
   \<and> currentIndex (clickPlay (loadSucceeded [] initialApp)) = 0"
proof -
  have r: "reachable (loadSucceeded [] initialApp)" by (rule reachable_loaded)
  have e: "routeData (loadSucceeded [] initialApp) = []"
    by (simp add: loadSucceeded_def simulationEffect_def initialApp_def)
  from empty_route_clicks_ignored[OF r e] r e show ?thesis by blast
qed

text \<open>
  C4. In every reachable state with a non-empty route the index is a position of the
  route, \<open>0 \<le> currentIndex \<le> len - 1\<close>; load, play, pause, reset and the timer all lead to
  reachable states again. A timer period, and even a bare call of the interval callback,
  never lowers the index and never takes it past \<open>len - 1\<close>.
\<close>

theorem currentIndex_in_range:
  "reachable s \<Longrightarrow> routeData s \<noteq> [] \<Longrightarrow>
     (0 \<le> currentIndex s \<and> currentIndex s \<le> int (length (routeData s)) - 1)
     \<and> (currentIndex s \<le> currentIndex (tick s)
        \<and> currentIndex (tick s) \<le> int (length (routeData s)) - 1)
     \<and> (currentIndex s \<le> currentIndex (intervalCallback s)
        \<and> currentIndex (intervalCallback s) \<le> int (length (routeData s)) - 1)"
proof -
  assume r: "reachable s" and n: "routeData s \<noteq> []"
  from r have "controllerInvariant s" by (rule reachable_invariant)
  with n show ?thesis
    by (auto simp: controllerInvariant_def tick_def rerender_def intervalCallback_def
        simulationEffect_def Let_def)
qed

text \<open>Witness for C4: \<open>sampleRoute\<close> played to its last index.\<close>

theorem currentIndex_in_range_witness:
  "reachable endOfRoute \<and> routeData endOfRoute \<noteq> []
   \<and> 0 \<le> currentIndex endOfRoute \<and> currentIndex endOfRoute \<le> 2
   \<and> currentIndex endOfRoute \<le> currentIndex (tick endOfRoute)
   \<and> currentIndex (tick endOfRoute) \<le> 2
   \<and> currentIndex (intervalCallback endOfRoute) \<le> 2"
proof -
  have n: "routeData endOfRoute \<noteq> []"
    by (simp add: endOfRoute_value sampleRoute_def)
  have l: "int (length (routeData endOfRoute)) - 1 = 2"
    by (simp add: endOfRoute_value length_sampleRoute)
  from currentIndex_in_range[OF reachable_endOfRoute n] reachable_endOfRoute n show ?thesis
    unfolding l by blast
qed

text \<open>
  C6. In a reachable state with a non-empty route whose index is the last position, a
  click on the play button sets the index to 0 and \<^verbatim>\<open>isPlaying\<close> to true, whatever
  \<^verbatim>\<open>isPlaying\<close> was; the timer starts again when the route has more than one waypoint.
\<close>

theorem play_at_end_restarts:
  "reachable s \<Longrightarrow> routeData s \<noteq> [] \<Longrightarrow> currentIndex s = int (length (routeData s)) - 1 \<Longrightarrow>
     currentIndex (clickPlay s) = 0 \<and> isPlaying (clickPlay s)
     \<and> (intervalActive (clickPlay s) \<longleftrightarrow> 1 < length (routeData s))"
  using reachable_invariant[of s]
  by (auto simp: controllerInvariant_def clickPlay_def rerender_def togglePlay_def
      simulationEffect_def Let_def)

text \<open>Witness for C6: replay from the end of \<open>sampleRoute\<close>.\<close>

theorem play_at_end_restarts_witness:
  "reachable endOfRoute \<and> routeData endOfRoute \<noteq> []
   \<and> currentIndex endOfRoute = int (length (routeData endOfRoute)) - 1
   \<and> currentIndex (clickPlay endOfRoute) = 0
   \<and> isPlaying (clickPlay endOfRoute)
   \<and> intervalActive (clickPlay endOfRoute)"
proof -
  have n: "routeData endOfRoute \<noteq> []"
    by (simp add: endOfRoute_value sampleRoute_def)
  have i: "currentIndex endOfRoute = int (length (routeData endOfRoute)) - 1"
    by (simp add: endOfRoute_value length_sampleRoute)
  have l: "1 < length (routeData endOfRoute)"
    by (simp add: endOfRoute_value length_sampleRoute)
  from play_at_end_restarts[OF reachable_endOfRoute n i] reachable_endOfRoute n i l
  show ?thesis by blast
qed

section \<open>Kinematics calculator: proofs\<close>

subsection \<open>Digits and numerals\<close>

lemma digits_below_ten:
  "\<forall>d \<in> set [0..<10]. digitValue (digitChar d) = d \<and> isDigit (digitChar d)"
  by code_simp

lemma digitValue_digitChar: "d < 10 \<Longrightarrow> digitValue (digitChar d) = d"
  using digits_below_ten by simp

lemma isDigit_digitChar: "d < 10 \<Longrightarrow> isDigit (digitChar d)"
  using digits_below_ten by simp

lemma leading_digit_not_zero: "\<forall>d \<in> set [1..<10]. digitChar d \<noteq> CHR ''0''"
  by code_simp

lemma digitChar_0: "digitChar 0 = CHR ''0''"
  by (simp add: digitChar_def)

lemma isDigit_zero: "isDigit CHR ''0''"
  by (simp add: isDigit_def)

lemma isDigit_not_colon: "isDigit c \<Longrightarrow> c \<noteq> CHR '':''"
  by (auto simp: isDigit_def)

lemma isDigit_showNat: "c \<in> set (showNat n) \<Longrightarrow> isDigit c"
proof (induction n arbitrary: c rule: showNat.induct)
  case (1 n)
  show ?case
  proof (cases "n < 10")
    case True
    with "1.prems" show ?thesis by (simp add: showNat.simps[of n] isDigit_digitChar)
  next
    case False
    with "1.prems" "1.IH" show ?thesis
      by (auto simp: showNat.simps[of n] isDigit_digitChar)
  qed
qed

lemma readNat_snoc: "readNat (s @ [c]) = 10 * readNat s + digitValue c"
  by (simp add: readNat_def)

lemma readNat_showNat: "readNat (showNat n) = n"
proof (induction n rule: showNat.induct)
  case (1 n)
  show ?case
  proof (cases "n < 10")
    case True
    then show ?thesis by (simp add: showNat.simps[of n] readNat_def digitValue_digitChar)
  next
    case False
    with "1.IH" show ?thesis
      by (simp add: showNat.simps[of n] readNat_snoc digitValue_digitChar)
  qed
qed

lemma readNat_zeros: "readNat (replicate k CHR ''0'' @ s) = readNat s"
proof -
  have z: "foldl (\<lambda>acc c. 10 * acc + digitValue c) 0 (replicate k CHR ''0'') = 0"
    by (induction k) (simp_all add: digitValue_def)
  show ?thesis by (simp add: readNat_def z)
qed

lemma readNat_padStart2: "readNat (padStart2 s) = readNat s"
  by (simp add: padStart2_def readNat_zeros)

lemma showNat_small: "n < 10 \<Longrightarrow> showNat n = [digitChar n]"
  by (simp add: showNat.simps[of n])

lemma showNat_two: "10 \<le> n \<Longrightarrow> n < 100 \<Longrightarrow> showNat n = [digitChar (n div 10), digitChar (n mod 10)]"
  by (simp add: showNat.simps[of n] showNat_small)

lemma showNat_step: "10 \<le> n \<Longrightarrow> showNat n = showNat (n div 10) @ [digitChar (n mod 10)]"
  by (simp add: showNat.simps[of n])

lemma length_showNat_pos: "0 < length (showNat n)"
  by (cases "n < 10") (simp_all add: showNat.simps[of n])

lemma showNat_hundreds:
  "100 \<le> n \<Longrightarrow> showNat n = showNat (n div 100) @ [digitChar (n div 10 mod 10), digitChar (n mod 10)]"
proof -
  assume h: "100 \<le> n"
  then have a: "showNat n = showNat (n div 10) @ [digitChar (n mod 10)]" by (simp add: showNat_step)
  from h have "10 \<le> n div 10" by simp
  then have b: "showNat (n div 10) = showNat (n div 10 div 10) @ [digitChar (n div 10 mod 10)]"
    by (rule showNat_step)
  have c: "n div 10 div 10 = n div 100" by (simp add: div_mult2_eq[symmetric])
  from a b c show ?thesis by simp
qed

lemma length_padStart2_seconds: "r < 60 \<Longrightarrow> length (padStart2 (showNat r)) = 2"
  by (cases "r < 10") (simp_all add: padStart2_def showNat_small showNat_two)

lemma length_padStart2_ge: "2 \<le> length (padStart2 s)"
  by (simp add: padStart2_def)

lemma isDigit_padStart2: "\<forall>c \<in> set s. isDigit c \<Longrightarrow> c \<in> set (padStart2 s) \<Longrightarrow> isDigit c"
  by (auto simp: padStart2_def isDigit_zero split: if_splits)

lemma minutesField_append:
  "\<forall>c \<in> set mm. c \<noteq> CHR '':'' \<Longrightarrow> minutesField (mm @ '':'' @ ss) = mm"
  by (simp add: minutesField_def takeWhile_tail)

lemma secondsField_append:
  "\<forall>c \<in> set mm. c \<noteq> CHR '':'' \<Longrightarrow> secondsField (mm @ '':'' @ ss) = ss"
  by (simp add: secondsField_def dropWhile_append2)

lemma toFixed2_digits:
  "toFixed2 (Num x) =
     (if x < 0 then ''-'' else []) @ twoDecimals (nat \<lfloor>\<bar>x\<bar> * 100 + 1 / 2\<rfloor>)"
proof -
  define n where "n = nat \<lfloor>\<bar>x\<bar> * 100 + 1 / 2\<rfloor>"
  consider "n < 10" | "10 \<le> n" "n < 100" | "100 \<le> n" by linarith
  then have "(let m = showNat n;
          m = (if length m \<le> 2 then replicate (3 - length m) CHR ''0'' @ m else m);
          k = length m
      in take (k - 2) m @ ''.'' @ drop (k - 2) m) = twoDecimals n"
  proof cases
    case 1
    then show ?thesis
      by (simp add: showNat_small twoDecimals_def Let_def numeral_3_eq_3 digitChar_0)
  next
    case 2
    then show ?thesis
      by (simp add: showNat_two showNat_small twoDecimals_def Let_def digitChar_0)
  next
    case 3
    then show ?thesis
      using length_showNat_pos[of "n div 100"]
      by (simp add: showNat_hundreds twoDecimals_def Let_def)
  qed
  then show ?thesis by (simp add: toFixed2_def n_def Let_def)
qed

lemma showNat_no_leading_zero: "0 < n \<Longrightarrow> hd (showNat n) \<noteq> CHR ''0''"
proof (induction n rule: showNat.induct)
  case (1 n)
  show ?case
  proof (cases "n < 10")
    case True
    with "1.prems" have "n \<in> set [1..<10]" by simp
    with leading_digit_not_zero have "digitChar n \<noteq> CHR ''0''" by blast
    with True show ?thesis by (simp add: showNat_small)
  next
    case False
    then have "0 < n div 10" by simp
    with False "1.IH" have "hd (showNat (n div 10)) \<noteq> CHR ''0''" by simp
    moreover have "showNat (n div 10) \<noteq> []" using length_showNat_pos[of "n div 10"] by auto
    ultimately show ?thesis using False by (simp add: showNat_step)
  qed
qed

lemma padStart2_minimal: "length (padStart2 (showNat n)) = 2 \<or> hd (padStart2 (showNat n)) \<noteq> CHR ''0''"
proof (cases "n < 10")
  case True
  then show ?thesis by (simp add: padStart2_def showNat_small)
next
  case False
  then have "0 < n" by simp
  then have "hd (showNat n) \<noteq> CHR ''0''" by (rule showNat_no_leading_zero)
  moreover from False have "2 \<le> length (showNat n)"
    using length_showNat_pos[of "n div 10"] by (simp add: showNat_step Suc_le_eq)
  ultimately show ?thesis by (simp add: padStart2_def)
qed

subsection \<open>Rounding to a double\<close>

lemmas number_ops = jsAdd_def jsSub_def jsMul_def jsDiv_def mathPI_def

lemma roundEven_bounds: "q - 1 \<le> of_int (roundEven q) \<and> of_int (roundEven q) \<le> q + 1"
  unfolding roundEven_def Let_def by (auto; linarith)

lemma roundDouble_normal:
  fixes k :: nat
  assumes lo: "2 ^ 52 \<le> \<bar>x\<bar> * 2 ^ k" and hi: "\<bar>x\<bar> * 2 ^ k < 2 ^ 53" and k: "k \<le> 1074"
  shows "roundDouble x = Num (of_int (roundEven (x * 2 ^ k)) / 2 ^ k)"
proof -
  from lo have x0: "x \<noteq> 0" by auto
  then have pos: "0 < \<bar>x\<bar>" by simp
  have p: "(2::real) powr (of_int (52 - int k)) = 2 ^ 52 / 2 ^ k"
    by (simp add: powr_diff powr_realpow)
  have p1: "(2::real) powr (of_int (52 - int k) + 1) = 2 ^ 53 / 2 ^ k"
    by (simp add: powr_diff powr_add powr_realpow)
  have "2 powr (of_int (52 - int k)) \<le> \<bar>x\<bar>"
    unfolding p using lo by (simp add: field_simps)
  moreover have "\<bar>x\<bar> < 2 powr (of_int (52 - int k) + 1)"
    unfolding p1 using hi by (simp add: field_simps)
  ultimately have fl: "\<lfloor>log 2 \<bar>x\<bar>\<rfloor> = 52 - int k"
    using floor_log_eq_powr_iff[OF pos, of 2 "52 - int k"] by simp
  from k have e: "max (52 - int k) (- 1022) = 52 - int k" by simp
  have u: "(2::real) powr (of_int (52 - int k) - 52) = 1 / 2 ^ k"
    by (simp add: powr_minus powr_realpow inverse_eq_divide)
  define n where "n = roundEven (x * 2 ^ k)"
  have "\<bar>of_int n :: real\<bar> \<le> \<bar>x * 2 ^ k\<bar> + 1"
    using roundEven_bounds[of "x * 2 ^ k"] unfolding n_def by linarith
  also have "\<dots> < 2 ^ 53 + 1" using hi by (simp add: abs_mult)
  finally have n53: "\<bar>of_int n :: real\<bar> < 2 ^ 53 + 1" .
  have "\<bar>of_int n / 2 ^ k :: real\<bar> = \<bar>of_int n\<bar> / 2 ^ k" by simp
  also have "\<dots> \<le> \<bar>of_int n\<bar> / 1" by (rule divide_left_mono) simp_all
  also have "\<dots> < 2 ^ 53 + 1" using n53 by simp
  also have "\<dots> < (2::real) ^ 1024" by simp
  finally have b: "\<bar>of_int n / 2 ^ k :: real\<bar> < 2 powr 1024" by simp
  have r: "roundDouble x =
      (let r = of_int (roundEven (x / (1 / 2 ^ k))) * (1 / 2 ^ k)
       in if \<bar>r\<bar> < 2 powr 1024 then Num r else NaN)"
    unfolding roundDouble_def Let_def fl e u using x0 by simp
  have q: "of_int (roundEven (x / (1 / 2 ^ k))) * (1 / 2 ^ k) = (of_int n / 2 ^ k :: real)"
    by (simp add: n_def)
  show ?thesis
    unfolding r Let_def q using b by (simp add: n_def)
qed


lemma roundEven_sign:
  "(0 \<le> q \<longrightarrow> 0 \<le> roundEven q) \<and> (q \<le> 0 \<longrightarrow> roundEven q \<le> 0)"
proof -
  have a: "0 \<le> \<lfloor>q\<rfloor>" if "0 \<le> q" using that by simp
  have b: "\<lfloor>q\<rfloor> + 1 \<le> 0" if "q < 0"
  proof -
    from that have "\<lfloor>q\<rfloor> < 0" by (simp add: floor_less_iff)
    then show ?thesis by linarith
  qed
  have c: "roundEven 0 = 0" by (simp add: roundEven_def)
  have "0 \<le> roundEven q" if "0 \<le> q"
    using a[OF that] unfolding roundEven_def Let_def by simp
  moreover have "roundEven q \<le> 0" if "q \<le> 0"
  proof (cases "q = 0")
    case True
    with c show ?thesis by simp
  next
    case False
    with that have "q < 0" by simp
    from b[OF this] have "\<lfloor>q\<rfloor> + 1 \<le> 0" .
    then show ?thesis unfolding roundEven_def Let_def by simp
  qed
  ultimately show ?thesis by blast
qed

lemma roundDouble_finite:
  assumes "\<bar>x\<bar> < 2 ^ 1000"
  shows "\<exists>r. roundDouble x = Num r \<and> \<bar>r\<bar> \<le> 2 * \<bar>x\<bar> + 1
             \<and> (0 \<le> x \<longrightarrow> 0 \<le> r) \<and> (x \<le> 0 \<longrightarrow> r \<le> 0)
             \<and> (1 / 2 ^ 1000 \<le> \<bar>x\<bar> \<longrightarrow> r \<noteq> 0)"
proof (cases "x = 0")
  case True
  then show ?thesis by (simp add: roundDouble_def)
next
  case False
  define e where "e = max \<lfloor>log 2 \<bar>x\<bar>\<rfloor> (- 1022)"
  define ulp :: real where "ulp = 2 powr (of_int e - 52)"
  define r where "r = of_int (roundEven (x / ulp)) * ulp"
  have up: "0 < ulp" by (simp add: ulp_def)
  from False have pos: "0 < \<bar>x\<bar>" by simp
  have small: "ulp \<le> \<bar>x\<bar> + 1"
  proof (cases "\<lfloor>log 2 \<bar>x\<bar>\<rfloor> \<le> - 1022")
    case True
    then have "e = - 1022" by (simp add: e_def)
    then have "ulp = 2 powr (- 1074)" by (simp add: ulp_def)
    also have "\<dots> \<le> 2 powr 0" by (rule powr_mono) simp_all
    finally show ?thesis using pos by simp
  next
    case False
    then have "e = \<lfloor>log 2 \<bar>x\<bar>\<rfloor>" by (simp add: e_def)
    then have "of_int e \<le> log 2 \<bar>x\<bar>" by simp
    then have "of_int e - 52 \<le> log 2 \<bar>x\<bar>" by simp
    then have "ulp \<le> 2 powr (log 2 \<bar>x\<bar>)" unfolding ulp_def by (rule powr_mono) simp
    also have "\<dots> = \<bar>x\<bar>" using pos by simp
    finally show ?thesis by simp
  qed
  have "\<bar>of_int (roundEven (x / ulp))\<bar> \<le> \<bar>x / ulp\<bar> + (1::real)"
    using roundEven_bounds[of "x / ulp"] by linarith
  then have "\<bar>of_int (roundEven (x / ulp))\<bar> * ulp \<le> (\<bar>x / ulp\<bar> + 1) * ulp"
    using up by (simp add: mult_right_mono)
  also have "\<dots> = \<bar>x\<bar> + ulp" using up by (simp add: field_simps abs_divide)
  finally have b: "\<bar>r\<bar> \<le> \<bar>x\<bar> + ulp" using up by (simp add: r_def abs_mult)
  with small have b2: "\<bar>r\<bar> \<le> 2 * \<bar>x\<bar> + 1" by simp
  also have "\<dots> < 2 * 2 ^ 1000 + 1" using assms by simp
  also have "\<dots> < (2::real) ^ 1024" by simp
  finally have fin: "\<bar>r\<bar> < 2 powr 1024" by simp
  have rd: "roundDouble x = Num r"
    using False fin by (simp add: roundDouble_def Let_def e_def ulp_def r_def)
  have nonneg: "0 \<le> r" if "0 \<le> x"
  proof -
    from that up have "0 \<le> x / ulp" by simp
    then have "0 \<le> roundEven (x / ulp)" using roundEven_sign by blast
    with up show ?thesis by (simp add: r_def)
  qed
  have nonpos: "r \<le> 0" if "x \<le> 0"
  proof -
    from that up have "x / ulp \<le> 0" by (simp add: divide_nonpos_pos)
    then have "roundEven (x / ulp) \<le> 0" using roundEven_sign by blast
    with up show ?thesis by (simp add: r_def mult_nonpos_nonneg)
  qed
  have nonzero: "r \<noteq> 0" if big: "1 / 2 ^ 1000 \<le> \<bar>x\<bar>"
  proof -
    have "(2::real) powr (- 1000) = 1 / 2 ^ 1000"
      by (simp add: powr_minus inverse_eq_divide)
    with big have "2 powr (- 1000) \<le> \<bar>x\<bar>" by simp
    then have "- 1000 \<le> log 2 \<bar>x\<bar>" using pos by (simp add: le_log_iff)
    then have "- 1000 \<le> \<lfloor>log 2 \<bar>x\<bar>\<rfloor>" by (simp add: le_floor_iff)
    then have e: "e = \<lfloor>log 2 \<bar>x\<bar>\<rfloor>" by (simp add: e_def)
    have "2 powr of_int e \<le> \<bar>x\<bar>"
      using floor_log_eq_powr_iff[of "\<bar>x\<bar>" 2 e] pos e by simp
    then have "2 powr of_int e / ulp \<le> \<bar>x\<bar> / ulp" using up by (simp add: divide_right_mono)
    moreover have "2 powr of_int e / ulp = 2 ^ 52"
      by (simp add: ulp_def powr_diff)
    ultimately have "2 ^ 52 \<le> \<bar>x / ulp\<bar>" using up by (simp add: abs_divide)
    then have "2 ^ 52 - 1 \<le> \<bar>of_int (roundEven (x / ulp)) :: real\<bar>"
      using roundEven_bounds[of "x / ulp"] by linarith
    then have "(of_int (roundEven (x / ulp)) :: real) \<noteq> 0" by auto
    with up show ?thesis by (simp add: r_def)
  qed
  from rd b2 nonneg nonpos nonzero show ?thesis by blast
qed

subsection \<open>Distance\<close>

text \<open>
  The distance from a point to itself is 0 in doubles too, for every latitude below the
  overflow range and every engine with \<^verbatim>\<open>Math.sin(0) = 0\<close>, \<^verbatim>\<open>Math.sqrt(0) = 0\<close>,
  \<^verbatim>\<open>Math.sqrt(1) = 1\<close>, \<^verbatim>\<open>Math.atan2(0, 1) = 0\<close> and cosines of magnitude at most 1.
\<close>

lemma jsMul_zero: "\<bar>x\<bar> < 2 ^ 1000 \<Longrightarrow> jsMul (Num x) (Num 0) = Num 0"
  by (simp add: jsMul_def roundDouble_def)

lemma zero_ops:
  "jsSub (Num x) (Num x) = Num 0"
  "jsMul (Num 0) mathPI = Num 0"
  "jsDiv (Num 0) (Num 180) = Num 0"
  "jsDiv (Num 0) (Num 2) = Num 0"
  "jsMul (Num 0) (Num 0) = Num 0"
  "jsAdd (Num 0) (Num 0) = Num 0"
  "jsMul (Num 2) (Num 0) = Num 0"
  "jsMul (Num 6371) (Num 0) = Num 0"
  by (simp_all add: number_ops roundDouble_def)

lemma one_minus_zero: "jsSub (Num 1) (Num 0) = Num 1"
  by (simp add: number_ops roundDouble_normal[where k = 52] roundEven_def Let_def)

lemma radians_finite:
  assumes "\<bar>x\<bar> < 2 ^ 900"
  shows "\<exists>y. jsDiv (jsMul (Num x) mathPI) (Num 180) = Num y"
proof -
  have "\<bar>x * (884279719003555 / 2 ^ 48)\<bar> = \<bar>x\<bar> * (884279719003555 / 2 ^ 48)"
    by (simp add: abs_mult)
  also have "\<dots> \<le> \<bar>x\<bar> * 4" by (intro mult_left_mono) simp_all
  also have "\<dots> < 2 ^ 900 * 4" using assms by simp
  finally have b: "\<bar>x * (884279719003555 / 2 ^ 48)\<bar> < 2 ^ 902" by simp
  then have "\<bar>x * (884279719003555 / 2 ^ 48)\<bar> < 2 ^ 1000" by simp
  from roundDouble_finite[OF this] obtain y
    where y: "roundDouble (x * (884279719003555 / 2 ^ 48)) = Num y"
      and yb: "\<bar>y\<bar> \<le> 2 * \<bar>x * (884279719003555 / 2 ^ 48)\<bar> + 1"
    by blast
  from yb b have "\<bar>y\<bar> < 2 * 2 ^ 902 + 1" by linarith
  then have "\<bar>y / 180\<bar> < 2 * 2 ^ 902 + 1" by simp
  then have "\<bar>y / 180\<bar> < 2 ^ 1000" by simp
  from roundDouble_finite[OF this] obtain z where "roundDouble (y / 180) = Num z" by blast
  with y show ?thesis by (simp add: number_ops)
qed

lemma distance_to_self:
  assumes sin0: "sinD m 0 = 0" and sqrt0: "sqrtD m 0 = 0" and sqrt1: "sqrtD m 1 = 1"
    and atan0: "atan2D m 0 1 = 0" and cos1: "\<forall>x. \<bar>cosD m x\<bar> \<le> 1"
    and bound: "\<bar>la\<bar> < 2 ^ 900"
  shows "calculateDistanceKm m (Num la) (Num lo) (Num la) (Num lo) = Num 0"
proof -
  from radians_finite[OF bound] obtain y
    where y: "jsDiv (jsMul (Num la) mathPI) (Num 180) = Num y" by blast
  define c where "c = cosD m y"
  have cb1: "\<bar>c * c\<bar> \<le> 1"
  proof -
    from cos1 have "\<bar>c\<bar> \<le> 1" by (simp add: c_def)
    then have "\<bar>c\<bar> * \<bar>c\<bar> \<le> 1 * 1" by (intro mult_mono) simp_all
    then show ?thesis by (simp add: abs_mult)
  qed
  then have cb: "\<bar>c * c\<bar> < 2 ^ 1000"
    by (rule le_less_trans) simp
  from roundDouble_finite[OF cb] obtain p
    where p: "roundDouble (c * c) = Num p" and pb: "\<bar>p\<bar> \<le> 2 * \<bar>c * c\<bar> + 1" by blast
  from pb cb1 have "\<bar>p\<bar> \<le> 3" by linarith
  also have "\<dots> < (2::real) ^ 1000" by simp
  finally have "\<bar>p\<bar> < 2 ^ 1000" .
  then have p0: "jsMul (Num p) (Num 0) = Num 0" by (rule jsMul_zero)
  have s: "mathSin m (Num 0) = Num 0" by (simp add: mathSin_def sin0)
  have cc: "jsMul (mathCos m (Num y)) (mathCos m (Num y)) = Num p"
    by (simp add: mathCos_def jsMul_def c_def[symmetric] p)
  have a: "haversineA m (Num la) (Num lo) (Num la) (Num lo) = Num 0"
    unfolding haversineA_def Let_def zero_ops s y cc p0 ..
  have r0: "mathSqrt m (Num 0) = Num 0" by (simp add: mathSqrt_def sqrt0)
  have r1: "mathSqrt m (Num 1) = Num 1" by (simp add: mathSqrt_def sqrt1)
  have t: "mathAtan2 m (Num 0) (Num 1) = Num 0" by (simp add: mathAtan2_def atan0)
  show ?thesis
    unfolding calculateDistanceKm_def Let_def a r0 one_minus_zero r1 t zero_ops ..
qed

text \<open>
  The distance between the two waypoints of \<open>antipodalRoute\<close>, step by step in doubles.
\<close>

lemma eight_degrees:
  "jsDiv (jsMul (Num 8) mathPI) (Num 180) = Num (5030569068109113 / 2 ^ 55)"
  "jsDiv (jsMul (Num (- 8)) mathPI) (Num 180) = Num (- (5030569068109113 / 2 ^ 55))"
proof -
  have a: "jsMul (Num 8) mathPI = Num (884279719003555 / 2 ^ 45)"
    by (simp add: number_ops roundDouble_normal[where k = 48] roundEven_def Let_def)
  have b: "jsMul (Num (- 8)) mathPI = Num (- (884279719003555 / 2 ^ 45))"
    by (simp add: number_ops roundDouble_normal[where k = 48] roundEven_def Let_def)
  show "jsDiv (jsMul (Num 8) mathPI) (Num 180) = Num (5030569068109113 / 2 ^ 55)"
    unfolding a by (simp add: number_ops roundDouble_normal[where k = 55] roundEven_def Let_def)
  show "jsDiv (jsMul (Num (- 8)) mathPI) (Num 180) = Num (- (5030569068109113 / 2 ^ 55))"
    unfolding b by (simp add: number_ops roundDouble_normal[where k = 55] roundEven_def Let_def)
qed

lemma half_dLat:
  "jsDiv (jsDiv (jsMul (jsSub (Num (- 8)) (Num 8)) mathPI) (Num 180)) (Num 2) =
     Num (- (5030569068109113 / 2 ^ 55))"
proof -
  have a: "jsSub (Num (- 8)) (Num 8) = Num (- 16)"
    by (simp add: number_ops roundDouble_normal[where k = 48] roundEven_def Let_def)
  have b: "jsMul (Num (- 16)) mathPI = Num (- (884279719003555 / 2 ^ 44))"
    by (simp add: number_ops roundDouble_normal[where k = 47] roundEven_def Let_def)
  have c: "jsDiv (Num (- (884279719003555 / 2 ^ 44))) (Num 180) =
             Num (- (5030569068109113 / 2 ^ 54))"
    by (simp add: number_ops roundDouble_normal[where k = 54] roundEven_def Let_def)
  have d: "jsDiv (Num (- (5030569068109113 / 2 ^ 54))) (Num 2) =
             Num (- (5030569068109113 / 2 ^ 55))"
    by (simp add: number_ops roundDouble_normal[where k = 55] roundEven_def Let_def)
  show ?thesis unfolding a b c d ..
qed

lemma half_dLon:
  "jsDiv (jsDiv (jsMul (jsSub (Num 180) (Num 0)) mathPI) (Num 180)) (Num 2) =
     Num (884279719003555 / 2 ^ 49)"
proof -
  have a: "jsSub (Num 180) (Num 0) = Num 180"
    by (simp add: number_ops roundDouble_normal[where k = 45] roundEven_def Let_def)
  have b: "jsMul (Num 180) mathPI = Num (4974073419394997 / 2 ^ 43)"
    by (simp add: number_ops roundDouble_normal[where k = 43] roundEven_def Let_def)
  have c: "jsDiv (Num (4974073419394997 / 2 ^ 43)) (Num 180) = Num (884279719003555 / 2 ^ 48)"
    by (simp add: number_ops roundDouble_normal[where k = 51] roundEven_def Let_def)
  have d: "jsDiv (Num (884279719003555 / 2 ^ 48)) (Num 2) = Num (884279719003555 / 2 ^ 49)"
    by (simp add: number_ops roundDouble_normal[where k = 52] roundEven_def Let_def)
  show ?thesis unfolding a b c d ..
qed

lemma antipodal_haversineA:
  assumes "returnsEightDegrees m"
  shows "haversineA m (Num 8) (Num 0) (Num (- 8)) (Num 180) = Num (4503599627370497 / 2 ^ 52)"
proof -
  from assms
  have s1: "mathSin m (Num (- (5030569068109113 / 2 ^ 55))) = Num (- (5014239404989977 / 2 ^ 55))"
    and c1: "mathCos m (Num (5030569068109113 / 2 ^ 55)) = Num (4459770905381437 / 2 ^ 52)"
    and c2: "mathCos m (Num (- (5030569068109113 / 2 ^ 55))) = Num (4459770905381437 / 2 ^ 52)"
    and s2: "mathSin m (Num (884279719003555 / 2 ^ 49)) = Num 1"
    by (simp_all add: returnsEightDegrees_def mathSin_def mathCos_def)
  have ss: "jsMul (Num (- (5014239404989977 / 2 ^ 55))) (Num (- (5014239404989977 / 2 ^ 55))) =
              Num (1395694493897217 / 2 ^ 56)"
    by (simp add: number_ops roundDouble_normal[where k = 58] roundEven_def Let_def)
  have cc: "jsMul (Num (4459770905381437 / 2 ^ 52)) (Num (4459770905381437 / 2 ^ 52)) =
              Num (8832737443003841 / 2 ^ 53)"
    by (simp add: number_ops roundDouble_normal[where k = 53] roundEven_def Let_def)
  have c1s: "jsMul (Num (8832737443003841 / 2 ^ 53)) (Num 1) = Num (8832737443003841 / 2 ^ 53)"
    by (simp add: number_ops roundDouble_normal[where k = 53] roundEven_def Let_def)
  have sum: "jsAdd (Num (1395694493897217 / 2 ^ 56)) (Num (8832737443003841 / 2 ^ 53)) =
               Num (4503599627370497 / 2 ^ 52)"
    by (simp add: number_ops roundDouble_normal[where k = 52] roundEven_def Let_def)
  show ?thesis
    unfolding haversineA_def Let_def half_dLat half_dLon eight_degrees s1 s2 c1 c2 ss cc c1s sum ..
qed

lemma antipodal_distance:
  assumes "returnsEightDegrees m"
  shows "calculateDistanceKm m (Num 8) (Num 0) (Num (- 8)) (Num 180) = NaN"
proof -
  have d: "jsSub (Num 1) (Num (4503599627370497 / 2 ^ 52)) = Num (- (1 / 2 ^ 52))"
    by (simp add: number_ops roundDouble_normal[where k = 104] roundEven_def Let_def)
  have r: "mathSqrt m (Num (- (1 / 2 ^ 52))) = NaN"
    by (simp add: mathSqrt_def)
  have t: "mathAtan2 m y NaN = NaN" for y
    by (simp add: mathAtan2_def split: number.splits)
  show ?thesis
    unfolding calculateDistanceKm_def Let_def antipodal_haversineA[OF assms] d r t
    by (simp add: jsMul_def)
qed


lemma tableEngine_returns: "returnsEightDegrees tableEngine"
  by (simp add: returnsEightDegrees_def tableEngine_def)

lemma ten_seconds: "jsDiv (Num 10000) (Num 3600000) = Num (6405119470038039 / 2 ^ 61)"
  by (simp add: number_ops roundDouble_normal[where k = 61] roundEven_def Let_def)

text \<open>
  C8. Between the waypoints \<open>(8, 0)\<close> and \<open>(-8, 180)\<close> the argument of the square roots
  comes out as \<open>1 + 2\<^sup>-\<^sup>5\<^sup>2\<close>, above 1, so \<^verbatim>\<open>Math.sqrt(1-a)\<close> and with it the distance
  is \<open>NaN\<close>, and \<open>NaN\<close> is equal to nothing: the distance from the first to the second
  is not equal to the distance from the second to the first.
\<close>

theorem distance_antipodal_not_a_number:
  "returnsEightDegrees m \<Longrightarrow>
     haversineA m (Num 8) (Num 0) (Num (- 8)) (Num 180) = Num (1 + 1 / 2 ^ 52)
     \<and> calculateDistanceKm m (Num 8) (Num 0) (Num (- 8)) (Num 180) = NaN
     \<and> \<not> jsEquals (calculateDistanceKm m (Num 8) (Num 0) (Num (- 8)) (Num 180))
                    (calculateDistanceKm m (Num (- 8)) (Num 180) (Num 8) (Num 0))"
proof -
  assume m: "returnsEightDegrees m"
  have "haversineA m (Num 8) (Num 0) (Num (- 8)) (Num 180) = Num (1 + 1 / 2 ^ 52)"
    by (simp add: antipodal_haversineA[OF m])
  then show ?thesis by (simp add: antipodal_distance[OF m] jsEquals_def)
qed

text \<open>Witness for C8: the engine \<open>tableEngine\<close>.\<close>

theorem distance_antipodal_not_a_number_witness:
  "returnsEightDegrees tableEngine
   \<and> calculateDistanceKm tableEngine (Num 8) (Num 0) (Num (- 8)) (Num 180) = NaN
   \<and> \<not> jsEquals (calculateDistanceKm tableEngine (Num 8) (Num 0) (Num (- 8)) (Num 180))
                  (calculateDistanceKm tableEngine (Num (- 8)) (Num 180) (Num 8) (Num 0))"
  using tableEngine_returns distance_antipodal_not_a_number[OF tableEngine_returns]
  by (simp add: jsEquals_def)

subsection \<open>Speed\<close>

lemma toFixed2_not_sentinel: "toFixed2 a \<noteq> ''N/A''"
proof (cases a)
  case NaN
  then show ?thesis by (simp add: toFixed2_def)
next
  case (Num x)
  define n where "n = nat \<lfloor>\<bar>x\<bar> * 100 + 1 / 2\<rfloor>"
  have "last (toFixed2 (Num x)) = digitChar (n mod 10)"
    by (simp add: toFixed2_digits twoDecimals_def n_def)
  moreover have "isDigit (digitChar (n mod 10))" by (simp add: isDigit_digitChar)
  ultimately have "last (toFixed2 (Num x)) \<noteq> last ''N/A''" by (auto simp: isDigit_def)
  with Num show ?thesis by auto
qed

text \<open>
  For a valid index whose two timestamps differ by less than \<open>2\<^sup>5\<^sup>3\<close> ms, the speed is
  the sentinel \<^verbatim>\<open>N/A\<close> exactly when the difference is zero or negative. When it is
  positive, the divisor is a positive number and the result is \<^verbatim>\<open>toFixed(2)\<close> of the
  distance over the hours.
\<close>

lemma speed_sentinel:
  assumes len: "2 \<le> length route" and lo: "1 \<le> i" and hi: "i \<le> int (length route) - 1"
    and small: "\<bar>timestamp (route ! nat i) - timestamp (route ! nat (i - 1))\<bar> < 2 ^ 53"
  shows "calculateSpeedKmH m i route = ''N/A'' \<longleftrightarrow>
           timestamp (route ! nat i) - timestamp (route ! nat (i - 1)) \<le> 0"
    and "0 < timestamp (route ! nat i) - timestamp (route ! nat (i - 1)) \<Longrightarrow>
           \<exists>h. 0 < h
             \<and> jsDiv (Num (real_of_int
                   (timestamp (route ! nat i) - timestamp (route ! nat (i - 1)))))
                 (Num (1000 * 60 * 60)) = Num h
             \<and> calculateSpeedKmH m i route =
                 toFixed2 (jsDiv
                   (calculateDistanceKm m
                      (Num (lat (route ! nat (i - 1)))) (Num (lng (route ! nat (i - 1))))
                      (Num (lat (route ! nat i))) (Num (lng (route ! nat i))))
                   (Num h))"
proof -
  define prevPoint where "prevPoint = route ! nat (i - 1)"
  define currPoint where "currPoint = route ! nat i"
  define deltaMs where "deltaMs = timestamp currPoint - timestamp prevPoint"
  define x where "x = real_of_int deltaMs / (1000 * 60 * 60)"
  define dist where "dist = calculateDistanceKm m (Num (lat prevPoint)) (Num (lng prevPoint))
                              (Num (lat currPoint)) (Num (lng currPoint))"
  from small have "\<bar>real_of_int deltaMs\<bar> < 2 ^ 53"
    unfolding deltaMs_def currPoint_def prevPoint_def
    by (metis of_int_abs of_int_less_iff of_int_numeral of_int_power)
  then have "\<bar>x\<bar> < 2 ^ 53" by (simp add: x_def)
  then have "\<bar>x\<bar> < 2 ^ 1000"
    by (rule less_trans) simp
  from roundDouble_finite[OF this] obtain h
    where h: "roundDouble x = Num h"
      and nonneg: "0 \<le> x \<longrightarrow> 0 \<le> h" and nonpos: "x \<le> 0 \<longrightarrow> h \<le> 0"
      and nonzero: "1 / 2 ^ 1000 \<le> \<bar>x\<bar> \<longrightarrow> h \<noteq> 0"
    by blast
  have hours: "jsDiv (Num (real_of_int deltaMs)) (Num 3600000) = Num h"
    using h by (simp add: jsDiv_def x_def)
  have e: "element route (i - 1) = Some prevPoint" "element route i = Some currPoint"
    using lo hi by (simp_all add: element_def prevPoint_def currPoint_def)
  have r: "calculateSpeedKmH m i route =
             (if h \<le> 0 then ''N/A'' else toFixed2 (jsDiv dist (Num h)))"
    using len lo e
    by (simp add: calculateSpeedKmH_def Let_def deltaMs_def[symmetric] dist_def[symmetric]
        hours jsLessEq_def)
  have pos: "0 < h" if "0 < deltaMs"
  proof -
    from that have "1 \<le> real_of_int deltaMs" by simp
    then have "1 / (1000 * 60 * 60) \<le> x" by (simp add: x_def divide_right_mono)
    moreover have "(1::real) / 2 ^ 1000 \<le> 1 / (1000 * 60 * 60)"
      by (rule divide_left_mono) simp_all
    ultimately have "1 / 2 ^ 1000 \<le> x" by (rule order_trans[rotated])
    moreover from this have "0 \<le> x" by (rule order_trans[rotated]) simp
    ultimately show ?thesis using nonneg nonzero by force
  qed
  have neg: "h \<le> 0" if "deltaMs \<le> 0"
  proof -
    from that have "x \<le> 0" by (simp add: x_def divide_nonpos_pos)
    with nonpos show ?thesis by blast
  qed
  show "calculateSpeedKmH m i route = ''N/A'' \<longleftrightarrow>
          timestamp (route ! nat i) - timestamp (route ! nat (i - 1)) \<le> 0"
    unfolding prevPoint_def[symmetric] currPoint_def[symmetric] deltaMs_def[symmetric]
    using r pos neg toFixed2_not_sentinel by (cases "deltaMs \<le> 0") auto
  show "\<exists>h. 0 < h
          \<and> jsDiv (Num (real_of_int
                (timestamp (route ! nat i) - timestamp (route ! nat (i - 1)))))
              (Num (1000 * 60 * 60)) = Num h
          \<and> calculateSpeedKmH m i route =
              toFixed2 (jsDiv
                (calculateDistanceKm m
                   (Num (lat (route ! nat (i - 1)))) (Num (lng (route ! nat (i - 1))))
                   (Num (lat (route ! nat i))) (Num (lng (route ! nat i))))
                (Num h))"
    if "0 < timestamp (route ! nat i) - timestamp (route ! nat (i - 1))"
  proof -
    from that have "0 < deltaMs" by (simp add: deltaMs_def currPoint_def prevPoint_def)
    from pos[OF this] r hours show ?thesis
      unfolding prevPoint_def[symmetric] currPoint_def[symmetric] deltaMs_def[symmetric]
        dist_def[symmetric]
      by simp
  qed
qed

text \<open>
  C5. On \<open>antipodalRoute\<close> the two timestamps are ten seconds apart, a positive
  difference, and the speed at index 1 is neither the sentinel nor a number rounded to two
  decimals: the distance is \<open>NaN\<close>, and the function returns the text \<^verbatim>\<open>NaN\<close>.
\<close>

theorem speed_antipodal_not_a_number:
  "returnsEightDegrees m \<Longrightarrow> calculateSpeedKmH m 1 antipodalRoute = ''NaN''"
proof -
  assume m: "returnsEightDegrees m"
  have p: "element antipodalRoute (1 - 1) = Some \<lparr>lat = 8, lng = 0, timestamp = 0\<rparr>"
    and c: "element antipodalRoute 1 = Some \<lparr>lat = - 8, lng = 180, timestamp = 10000\<rparr>"
    by (simp_all add: element_def antipodalRoute_def)
  have l: "\<not> length antipodalRoute \<le> 1" by (simp add: antipodalRoute_def)
  have h: "\<not> jsLessEq (Num (6405119470038039 / 2 ^ 61)) (Num 0)" by (simp add: jsLessEq_def)
  have q: "jsDiv NaN b = NaN" for b by (simp add: jsDiv_def)
  show ?thesis
    unfolding calculateSpeedKmH_def
    using l p c h by (simp add: Let_def antipodal_distance[OF m] ten_seconds q toFixed2_def)
qed

text \<open>Witness for C5: the engine \<open>tableEngine\<close>.\<close>

theorem speed_antipodal_not_a_number_witness:
  "returnsEightDegrees tableEngine \<and> calculateSpeedKmH tableEngine 1 antipodalRoute = ''NaN''"
  using tableEngine_returns speed_antipodal_not_a_number[OF tableEngine_returns] by simp

text \<open>
  C10. For every route and every integer index, if the waypoint at the index or the one
  before it is missing, the speed is the sentinel \<^verbatim>\<open>0.00\<close>.
\<close>

theorem speed_missing_point:
  "element route index = None \<or> element route (index - 1) = None \<Longrightarrow>
     calculateSpeedKmH m index route = ''0.00''"
  by (auto simp: calculateSpeedKmH_def split: option.splits)

text \<open>Witness for C10: an index past the end of \<open>sampleRoute\<close>, and a negative one.\<close>

theorem speed_missing_point_witness:
  "(element sampleRoute 3 = None \<or> element sampleRoute (3 - 1) = None)
   \<and> calculateSpeedKmH tableEngine 3 sampleRoute = ''0.00''
   \<and> calculateSpeedKmH tableEngine (- 1) sampleRoute = ''0.00''"
proof -
  have a: "element sampleRoute 3 = None \<or> element sampleRoute (3 - 1) = None"
    by (simp add: element_def sampleRoute_def)
  have b: "element sampleRoute (- 1) = None \<or> element sampleRoute (- 1 - 1) = None"
    by (simp add: element_def)
  show ?thesis
    using a speed_missing_point[OF a] speed_missing_point[OF b] by simp
qed

subsection \<open>Progress\<close>

text \<open>
  C9 as stated fails: the progress value of the source is a percentage. On a route of one
  waypoint at index 0 it is 100, not the fraction \<open>(0 + 1) / 1 = 1\<close>.
\<close>

theorem progress_is_percentage_counterexample:
  "progressPercentage 0 1 = 100 \<and> progressPercentage 0 1 \<noteq> (real_of_int 0 + 1) / real 1"
  by (simp add: progressPercentage_def)

text \<open>
  C9, amended. The progress value equals \<open>(index + 1) / length * 100\<close> for a positive
  length and 0 for length 0; at index \<open>len - 1\<close> of a non-empty route it is 100, and for
  every valid index it lies in \<open>(0, 100]\<close>.
\<close>

theorem progress_percentage:
  "progressPercentage index len = (if len = 0 then 0 else (real_of_int index + 1) / real len * 100)
   \<and> (0 < len \<longrightarrow> progressPercentage (int len - 1) len = 100)
   \<and> (0 \<le> index \<and> index < int len \<longrightarrow>
        0 < progressPercentage index len \<and> progressPercentage index len \<le> 100)"
proof -
  have a: "progressPercentage index len =
             (if len = 0 then 0 else (real_of_int index + 1) / real len * 100)"
    by (simp add: progressPercentage_def)
  have b: "progressPercentage (int len - 1) len = 100" if "0 < len"
    using that by (simp add: progressPercentage_def)
  have c: "0 < progressPercentage index len \<and> progressPercentage index len \<le> 100"
    if "0 \<le> index" "index < int len"
  proof -
    define q where "q = (real_of_int index + 1) / real len"
    from that have n: "real_of_int index + 1 \<le> real len" "0 < real len" "0 < real_of_int index + 1"
      by simp_all
    then have "0 < q" "q \<le> 1" by (simp_all add: q_def)
    moreover from that have "progressPercentage index len = q * 100"
      by (simp add: progressPercentage_def q_def)
    ultimately show ?thesis by simp
  qed
  from a b c show ?thesis by blast
qed

text \<open>Witness for C9: a route of three waypoints, and the empty route.\<close>

theorem progress_percentage_witness:
  "(0::nat) < 3 \<and> progressPercentage (int 3 - 1) 3 = 100
   \<and> (0::int) \<le> 0 \<and> (0::int) < int 3
   \<and> 0 < progressPercentage 0 3 \<and> progressPercentage 0 3 \<le> 100
   \<and> progressPercentage 0 0 = 0"
  using progress_percentage[of "int 3 - 1" 3] progress_percentage[of 0 3]
    progress_percentage[of 0 0]
  by simp

subsection \<open>Elapsed time\<close>

lemma elapsed_label_fields:
  assumes "st \<le> ct"
  defines "secs \<equiv> nat ((ct - st) div 1000)"
  defines "l \<equiv> formatElapsedTime (Some st) (Some ct)"
  shows "l = padStart2 (showNat (secs div 60)) @ '':'' @ padStart2 (showNat (secs mod 60))"
    and "minutesField l = padStart2 (showNat (secs div 60))"
    and "secondsField l = padStart2 (showNat (secs mod 60))"
proof -
  define s where "s = (ct - st) div 1000"
  have s: "0 \<le> s" using assms(1) by (simp add: s_def)
  have m: "showInt (s div 60) = showNat (secs div 60)"
    using s by (simp add: showInt_def secs_def s_def[symmetric] nat_div_distrib pos_imp_zdiv_nonneg_iff)
  have r: "showInt (jsRem s 60) = showNat (secs mod 60)"
    using s by (simp add: showInt_def jsRem_def secs_def s_def[symmetric] nat_mod_distrib)
  show e: "l = padStart2 (showNat (secs div 60)) @ '':'' @ padStart2 (showNat (secs mod 60))"
    by (simp add: l_def formatElapsedTime_def Let_def s_def[symmetric] m r)
  have d: "\<forall>c \<in> set (padStart2 (showNat (secs div 60))). c \<noteq> CHR '':''"
    using isDigit_padStart2[of "showNat (secs div 60)"] isDigit_showNat isDigit_not_colon by blast
  show "minutesField l = padStart2 (showNat (secs div 60))"
    unfolding e using d by (rule minutesField_append)
  show "secondsField l = padStart2 (showNat (secs mod 60))"
    unfolding e using d by (rule secondsField_append)
qed

text \<open>
  C7 as stated fails when the current timestamp lies before the start: five seconds
  back give \<^verbatim>\<open>-1:-5\<close>, which is no zero-padded minutes and seconds.
\<close>

theorem elapsed_label_negative_counterexample:
  "formatElapsedTime (Some 5000) (Some 0) = ''-1:-5''
   \<and> \<not> isDigit (hd (formatElapsedTime (Some 5000) (Some 0)))"
  by (simp add: formatElapsedTime_def Let_def showInt_def jsRem_def padStart2_def
      showNat.simps digitChar_def isDigit_def)

text \<open>
  C7, amended. The label is \<^verbatim>\<open>00:00\<close> whenever either timestamp is absent. When both
  are present and the current one is not before the start, the label is a minutes field,
  a colon and a seconds field, all digits; the seconds field has exactly two digits and
  the minutes field at least two, with a leading zero only to fill up to two; read as
  numerals they are the whole minutes and the remaining seconds of the elapsed whole
  seconds. Minutes are not capped at 59: 75 min 3 s give \<^verbatim>\<open>75:03\<close>.
\<close>

theorem elapsed_label:
  "formatElapsedTime None current = ''00:00''
   \<and> formatElapsedTime start None = ''00:00''
   \<and> (st \<le> ct \<longrightarrow>
        (let l = formatElapsedTime (Some st) (Some ct);
             secs = nat ((ct - st) div 1000)
         in l = minutesField l @ '':'' @ secondsField l
            \<and> (\<forall>c \<in> set (minutesField l @ secondsField l). isDigit c)
            \<and> length (secondsField l) = 2
            \<and> 2 \<le> length (minutesField l)
            \<and> (length (minutesField l) = 2 \<or> hd (minutesField l) \<noteq> CHR ''0'')
            \<and> readNat (minutesField l) = secs div 60
            \<and> readNat (secondsField l) = secs mod 60))
   \<and> formatElapsedTime (Some 0) (Some 4503000) = ''75:03''"
proof -
  have a: "formatElapsedTime None current = ''00:00''"
    by (simp add: formatElapsedTime_def)
  have b: "formatElapsedTime start None = ''00:00''"
    by (simp add: formatElapsedTime_def split: option.splits)
  have c: "formatElapsedTime (Some 0) (Some 4503000) = ''75:03''"
    by (simp add: formatElapsedTime_def Let_def showInt_def jsRem_def padStart2_def
        showNat.simps digitChar_def)
  have d: "(let l = formatElapsedTime (Some st) (Some ct);
             secs = nat ((ct - st) div 1000)
         in l = minutesField l @ '':'' @ secondsField l
            \<and> (\<forall>c \<in> set (minutesField l @ secondsField l). isDigit c)
            \<and> length (secondsField l) = 2
            \<and> 2 \<le> length (minutesField l)
            \<and> (length (minutesField l) = 2 \<or> hd (minutesField l) \<noteq> CHR ''0'')
            \<and> readNat (minutesField l) = secs div 60
            \<and> readNat (secondsField l) = secs mod 60)" if le: "st \<le> ct"
  proof -
    define secs where "secs = nat ((ct - st) div 1000)"
    define l where "l = formatElapsedTime (Some st) (Some ct)"
    note f = elapsed_label_fields[OF le, folded secs_def l_def]
    have 1: "l = minutesField l @ '':'' @ secondsField l"
      using f by simp
    have 2: "\<forall>c \<in> set (minutesField l @ secondsField l). isDigit c"
      unfolding f(2,3) using isDigit_padStart2 isDigit_showNat by (metis Un_iff set_append)
    have 3: "length (secondsField l) = 2"
      unfolding f(3) by (rule length_padStart2_seconds) simp
    have 4: "2 \<le> length (minutesField l)"
      unfolding f(2) by (rule length_padStart2_ge)
    have 5: "length (minutesField l) = 2 \<or> hd (minutesField l) \<noteq> CHR ''0''"
      unfolding f(2) by (rule padStart2_minimal)
    have 6: "readNat (minutesField l) = secs div 60"
      unfolding f(2) by (simp add: readNat_padStart2 readNat_showNat)
    have 7: "readNat (secondsField l) = secs mod 60"
      unfolding f(3) by (simp add: readNat_padStart2 readNat_showNat)
    from 1 2 3 4 5 6 7 show ?thesis
      unfolding Let_def secs_def[symmetric] l_def[symmetric] by blast
  qed
  from a b c d show ?thesis by blast
qed

text \<open>Witness for C7: 4503 s after the start.\<close>

theorem elapsed_label_witness:
  "(0::int) \<le> 4503000
   \<and> formatElapsedTime None None = ''00:00''
   \<and> readNat (minutesField (formatElapsedTime (Some 0) (Some 4503000))) = 75
   \<and> readNat (secondsField (formatElapsedTime (Some 0) (Some 4503000))) = 3
   \<and> formatElapsedTime (Some 0) (Some 4503000) = ''75:03''"
proof -
  have h: "(0::int) \<le> 4503000" by simp
  have m: "nat ((4503000 - 0) div 1000) div 60 = (75::nat)"
    and r: "nat ((4503000 - 0) div 1000) mod 60 = (3::nat)" by simp_all
  note e = elapsed_label[where st = 0 and ct = 4503000 and start = None and current = None,
      unfolded Let_def m r]
  from e have "formatElapsedTime None None = ''00:00''" by (rule conjunct1)
  moreover from e h
  have "readNat (minutesField (formatElapsedTime (Some 0) (Some 4503000))) = 75"
    and "readNat (secondsField (formatElapsedTime (Some 0) (Some 4503000))) = 3"
    and "formatElapsedTime (Some 0) (Some 4503000) = ''75:03''"
    by blast+
  ultimately show ?thesis using h by blast
qed

section \<open>Marker animation: proofs\<close>























end
